theory Spec2Isabelle
  imports Main "HOL-Library.Word"
begin

text \<open>
  A model of the accounts client (\<open>accounts_client.go\<close>): the operations \<open>Fetch\<close>, \<open>Create\<close>
  and \<open>Delete\<close> of \<open>httpAccountsClientImpl\<close>, the helpers they share, \<open>init\<close> and
  \<open>MakeClient\<close>. An operation is a function of the client and its arguments that gives
  what the operation returns, or that it panics, together with the calls of transport
  primitives it made. Go's multiple results are tuples, so \<open>(resp, err)\<close> reads as in the
  source.
\<close>

section \<open>Values exchanged by the accounts client\<close>

text \<open>
  A Go \<open>error\<close> value is represented by the text its \<open>Error()\<close> method returns, and a
  possibly-nil \<open>error\<close> by \<open>go_error option\<close>. A \<open>[]byte\<close> is a list of bytes (a \<open>char\<close> is
  a byte); the client never compares a slice with nil, so the nil slice and the empty
  slice are both \<open>[]\<close>. A pointer that may be nil is an \<open>option\<close>.
\<close>

type_synonym go_error = string
type_synonym bytes = string

text \<open>
  A response body (\<open>io.ReadCloser\<close>) is the data the stream delivers and the way it ends:
  with EOF (\<open>None\<close>) or with a read error. \<open>io.ReadAll\<close> returns the data read and that
  error. The http package documents that the body of a response is never nil.
\<close>

datatype body = ReadCloser (content: bytes) (failure: "go_error option")

definition io_ReadAll :: "body \<Rightarrow> bytes \<times> go_error option" where
  "io_ReadAll b = (content b, failure b)"

record Request =
  Method :: string
  URL :: string

text \<open>
  \<open>http.Response\<close>: the fields the client reads. \<open>Header\<close> maps a canonical header name to
  its values (no values: \<open>[]\<close>); \<open>Header_Get\<close> is \<open>Header.Get\<close> at a name that is already
  canonical, as \<open>Content-Type\<close> is.
\<close>

record Response =
  StatusCode :: int
  Header :: "string \<Rightarrow> string list"
  Body :: body

definition Header_Get :: "(string \<Rightarrow> string list) \<Rightarrow> string \<Rightarrow> string" where
  "Header_Get h key = (case h key of [] \<Rightarrow> [] | v # _ \<Rightarrow> v)"

definition HasPrefix :: "string \<Rightarrow> string \<Rightarrow> bool" where
  "HasPrefix s pre = (take (length pre) s = pre)"

text \<open>The error type of the client (\<open>HTTPError\<close>) and its \<open>Error()\<close> method.\<close>

record HTTPError =
  Cause :: "go_error option"
  Message :: string
  StatusCode :: int
  ResponsePayload :: "bytes option"

definition Error :: "HTTPError \<Rightarrow> string" where
  "Error e = (case Cause e of None \<Rightarrow> Message e | Some c \<Rightarrow> Message e @ '' : '' @ c)"

text \<open>
  Modelled from the spec: the declarations of \<open>AccountAttributes\<close>, \<open>AccountData\<close> and
  \<open>Envelope\<close> are not among the source files. The fields are the ones the spec lists
  (section 6) and the repository's tests construct and compare: a pointer field is an
  \<open>option\<close>, \<open>Version\<close> is a pointer to an \<open>int64\<close>.
\<close>

record AccountAttributes =
  AccountClassification :: "string option"
  AccountMatchingOptOut :: "bool option"
  AccountNumber :: string
  AlternativeNames :: "string list"
  BankID :: string
  BankIDCode :: string
  BaseCurrency :: string
  Bic :: string
  Country :: "string option"
  CustomerId :: string
  Iban :: string
  JointAccount :: "bool option"
  Name :: "string list"
  SecondaryIdentification :: string
  Status :: "string option"
  Switched :: "bool option"

record AccountData =
  Attributes :: "AccountAttributes option"
  ID :: string
  OrganisationID :: string
  Type :: string
  Version :: "64 word option"

record 'a Envelope =
  Data :: "'a option"

section \<open>Transport primitives and external packages\<close>

type_synonym ReadInputStream = "body \<Rightarrow> bytes \<times> go_error option"
type_synonym HttpGet = "string \<Rightarrow> Response option \<times> go_error option"
type_synonym HttpPost = "string \<Rightarrow> string \<Rightarrow> bytes \<Rightarrow> Response option \<times> go_error option"
type_synonym NewRequest = "string \<Rightarrow> string \<Rightarrow> Request option \<times> go_error option"
type_synonym DoRequest = "Request option \<Rightarrow> Response option \<times> go_error option"
type_synonym Serialize = "AccountData Envelope \<Rightarrow> bytes \<times> go_error option"

text \<open>
  The body argument of \<open>HttpPost\<close> is the content of the \<open>bytes.Reader\<close> the client passes;
  the body argument of \<open>NewRequest\<close> is left out, the client always passes nil.
  \<open>http_Client\<close> holds the three methods of \<open>http.Client\<close> the client uses.
\<close>

record http_Client =
  Get :: HttpGet
  Post :: HttpPost
  Do :: DoRequest

text \<open>
  The functions of packages outside the repository (google/uuid, net/url, encoding/json,
  net/http) are parameters of the model: every theorem below holds whatever they compute.
  Of \<open>uuid.Parse\<close> and \<open>url.ParseRequestURI\<close> the client uses the error only.
  \<open>json_Unmarshal\<close> gives the value of the \<open>*Envelope[AccountData]\<close> variable after the
  call, and the error; \<open>new_Client\<close> is the value \<open>http.Client{}\<close>.
\<close>

record pkgs =
  uuid_Parse :: "string \<Rightarrow> go_error option"
  url_ParseRequestURI :: "string \<Rightarrow> go_error option"
  json_Marshal :: Serialize
  json_Unmarshal :: "bytes \<Rightarrow> AccountData Envelope option \<times> go_error option"
  http_NewRequest :: NewRequest
  new_Client :: http_Client

text \<open>
  \<open>httpAccountsClientImpl\<close>: a field of function type may be nil (\<open>None\<close>) until \<open>init\<close>
  has run. The \<open>client\<close> field is never nil: every factory sets it.
\<close>

record httpAccountsClientImpl =
  host :: string
  client :: http_Client
  readInput :: "ReadInputStream option"
  doHttpGet :: "HttpGet option"
  doHttpPost :: "HttpPost option"
  createNewRequest :: "NewRequest option"
  doRequest :: "DoRequest option"
  serialize :: "Serialize option"

text \<open>
  What an operation does besides returning: the calls of transport primitives it makes,
  in order, and the deferred \<open>Close\<close> of the response body. An operation either returns
  or panics (a nil pointer is dereferenced, a nil function is called).
\<close>

datatype event =
    CallSerialize "AccountData Envelope"
  | CallGet string
  | CallPost string string bytes
  | CallNewRequest string string
  | CallDo "Request option"
  | CallReadInput body
  | CallClose body

datatype 'a outcome = Panicked | Returned 'a

section \<open>Constants and formatting\<close>

definition servicePath :: string where
  "servicePath = ''v1/organisation/accounts''"

definition jsonContentType :: string where
  "jsonContentType = ''application/json''"

definition contentType :: string where
  "contentType = ''Content-Type''"

definition StatusOK :: int where "StatusOK = 200"
definition StatusCreated :: int where "StatusCreated = 201"
definition StatusNoContent :: int where "StatusNoContent = 204"
definition MethodDelete :: string where "MethodDelete = ''DELETE''"

text \<open>The verb \<open>%d\<close> of \<open>fmt.Sprintf\<close>: decimal digits, with a minus sign when negative.\<close>

fun show_nat :: "nat \<Rightarrow> string" where
  "show_nat n =
     (if n < 10 then [''0123456789'' ! n]
      else show_nat (n div 10) @ [''0123456789'' ! (n mod 10)])"

definition Sprintf_d :: "int \<Rightarrow> string" where
  "Sprintf_d i = (if i < 0 then CHR ''-'' # show_nat (nat (- i)) else show_nat (nat i))"

section \<open>The client\<close>

definition isValidUUID :: "pkgs \<Rightarrow> string \<Rightarrow> bool" where
  "isValidUUID p u = (uuid_Parse p u = None)"

definition validateUrl :: "pkgs \<Rightarrow> string \<Rightarrow> go_error option" where
  "validateUrl p baseUrl =
     (case url_ParseRequestURI p baseUrl of
        Some err \<Rightarrow> Some ''invalid URL provided''
      | None \<Rightarrow> None)"

definition unexpectedStatusCode :: "int \<Rightarrow> int \<Rightarrow> string \<Rightarrow> bytes option \<Rightarrow> HTTPError" where
  "unexpectedStatusCode expected actual operation respPayload =
     \<lparr>Cause = None,
      Message = ''Unexpected response code returned for '' @ operation @
                '' operation, expected '' @ Sprintf_d expected @ '', got '' @ Sprintf_d actual,
      StatusCode = actual,
      ResponsePayload = respPayload\<rparr>"

text \<open>
  \<open>readPayload\<close> dereferences \<open>resp\<close> and calls the \<open>readInput\<close> field; it returns a pointer
  to the bytes read, or the body-read error.
\<close>

definition readPayload ::
  "httpAccountsClientImpl \<Rightarrow> Response option \<Rightarrow>
   (bytes option \<times> HTTPError option) outcome \<times> event list" where
  "readPayload hac resp =
     (case resp of
        None \<Rightarrow> (Panicked, [])
      | Some r \<Rightarrow>
          (case readInput hac of
             None \<Rightarrow> (Panicked, [])
           | Some rd \<Rightarrow>
               (case rd (Body r) of (responseData, err) \<Rightarrow>
                  if err \<noteq> None then
                    (Returned (None,
                       Some \<lparr>Cause = err, Message = ''Error processing response body'',
                             StatusCode = 0, ResponsePayload = None\<rparr>),
                     [CallReadInput (Body r)])
                  else (Returned (Some responseData, None), [CallReadInput (Body r)]))))"

definition deserializeToResponseEnvelope ::
  "pkgs \<Rightarrow> bytes option \<Rightarrow> (AccountData Envelope option \<times> HTTPError option) outcome" where
  "deserializeToResponseEnvelope p responseData =
     (case responseData of
        None \<Rightarrow> Panicked
      | Some bs \<Rightarrow>
          (case json_Unmarshal p bs of (responseEnvelope, err) \<Rightarrow>
             if err \<noteq> None then
               Returned (None,
                 Some \<lparr>Cause = err, Message = ''Error deserializing json'',
                       StatusCode = 0, ResponsePayload = responseData\<rparr>)
             else Returned (responseEnvelope, None)))"

definition accountDataOrError ::
  "AccountData Envelope option \<Rightarrow> bytes option \<Rightarrow>
   (AccountData option \<times> HTTPError option) outcome" where
  "accountDataOrError responseEnvelope responseData =
     (case responseEnvelope of
        None \<Rightarrow> Panicked
      | Some env \<Rightarrow>
          if Data env = None then
            Returned (None,
              Some \<lparr>Cause = None,
                    Message = ''Got an empty object after deserialization, json payload was an empty object?'',
                    StatusCode = 0, ResponsePayload = responseData\<rparr>)
          else Returned (Data env, None))"

text \<open>
  \<open>if resp != nil { defer resp.Body.Close() }\<close>: the call that runs when the operation
  leaves, by a return or by a panic.
\<close>

definition deferred_Close :: "Response option \<Rightarrow> event list" where
  "deferred_Close resp = (case resp of None \<Rightarrow> [] | Some r \<Rightarrow> [CallClose (Body r)])"

text \<open>The part of \<open>Fetch\<close> after the deferred call is registered (lines 87 to 112).\<close>

definition Fetch_response ::
  "pkgs \<Rightarrow> httpAccountsClientImpl \<Rightarrow> Response option \<Rightarrow>
   (AccountData option \<times> HTTPError option) outcome \<times> event list" where
  "Fetch_response p hac resp =
     (case readPayload hac resp of
        (Panicked, t) \<Rightarrow> (Panicked, t)
      | (Returned (responseData, httpErr), t) \<Rightarrow>
          if httpErr \<noteq> None then (Returned (None, httpErr), t)
          else
            (case resp of
               None \<Rightarrow> (Panicked, t)
             | Some r \<Rightarrow>
                 if Response.StatusCode r \<noteq> StatusOK then
                   (Returned (None,
                      Some (unexpectedStatusCode StatusOK (Response.StatusCode r) ''Get'' responseData)), t)
                 else
                   let cType = Header_Get (Header r) contentType in
                   if \<not> HasPrefix cType jsonContentType then
                     (Returned (None,
                        Some \<lparr>Cause = None,
                              Message = ''Unexpected  '' @ contentType @ '', expecting '' @
                                        jsonContentType @ '', got '' @ cType,
                              StatusCode = Response.StatusCode r,
                              ResponsePayload = responseData\<rparr>), t)
                   else
                     (case deserializeToResponseEnvelope p responseData of
                        Panicked \<Rightarrow> (Panicked, t)
                      | Returned (responseEnvelope, httpErr) \<Rightarrow>
                          if httpErr \<noteq> None then (Returned (None, httpErr), t)
                          else (accountDataOrError responseEnvelope responseData, t))))"

definition Fetch ::
  "pkgs \<Rightarrow> httpAccountsClientImpl \<Rightarrow> string \<Rightarrow>
   (AccountData option \<times> HTTPError option) outcome \<times> event list" where
  "Fetch p hac ident =
     (if \<not> isValidUUID p ident then
        (Returned (None,
           Some \<lparr>Cause = None, Message = ''id must be a valid uuid'',
                 StatusCode = 0, ResponsePayload = None\<rparr>), [])
      else
        let path = host hac @ ''/'' @ servicePath @ ''/'' @ ident in
        (case doHttpGet hac of
           None \<Rightarrow> (Panicked, [])
         | Some get \<Rightarrow>
             (case get path of (resp, err) \<Rightarrow>
                if err \<noteq> None then
                  (Returned (None,
                     Some \<lparr>Cause = err, Message = ''Error placing a Get Http request'',
                           StatusCode = 0, ResponsePayload = None\<rparr>), [CallGet path])
                else
                  (case Fetch_response p hac resp of (out, t) \<Rightarrow>
                     (out, CallGet path # t @ deferred_Close resp)))))"

text \<open>The part of \<open>Create\<close> after the transport error check (lines 143 to 157).\<close>

definition Create_response ::
  "pkgs \<Rightarrow> httpAccountsClientImpl \<Rightarrow> Response option \<Rightarrow>
   (AccountData option \<times> HTTPError option) outcome \<times> event list" where
  "Create_response p hac resp =
     (case readPayload hac resp of
        (Panicked, t) \<Rightarrow> (Panicked, t)
      | (Returned (responseData, httpErr), t) \<Rightarrow>
          if httpErr \<noteq> None then (Returned (None, httpErr), t)
          else
            (case resp of
               None \<Rightarrow> (Panicked, t)
             | Some r \<Rightarrow>
                 if Response.StatusCode r \<noteq> StatusCreated then
                   (Returned (None,
                      Some (unexpectedStatusCode StatusCreated (Response.StatusCode r) ''Post'' responseData)), t)
                 else
                   (case deserializeToResponseEnvelope p responseData of
                      Panicked \<Rightarrow> (Panicked, t)
                    | Returned (responseEnvelope, httpErr) \<Rightarrow>
                        if httpErr \<noteq> None then (Returned (None, httpErr), t)
                        else (accountDataOrError responseEnvelope responseData, t))))"

definition Create ::
  "pkgs \<Rightarrow> httpAccountsClientImpl \<Rightarrow> AccountData option \<Rightarrow>
   (AccountData option \<times> HTTPError option) outcome \<times> event list" where
  "Create p hac account =
     (let requestEnvelope = \<lparr>Data = account\<rparr> in
      case serialize hac of
        None \<Rightarrow> (Panicked, [])
      | Some ser \<Rightarrow>
          (case ser requestEnvelope of (requestData, err) \<Rightarrow>
             if err \<noteq> None then
               (Returned (None,
                  Some \<lparr>Cause = err, Message = ''Unable to serialize payload'',
                        StatusCode = 0, ResponsePayload = None\<rparr>),
                [CallSerialize requestEnvelope])
             else
               (case doHttpPost hac of
                  None \<Rightarrow> (Panicked, [CallSerialize requestEnvelope])
                | Some post \<Rightarrow>
                    let url = host hac @ ''/'' @ servicePath in
                    (case post url jsonContentType requestData of (resp, err) \<Rightarrow>
                       (case (if err \<noteq> None then
                                (Returned (None,
                                   Some \<lparr>Cause = err, Message = ''Error placing a Post Http request'',
                                         StatusCode = 0, ResponsePayload = None\<rparr>), [])
                              else Create_response p hac resp) of
                          (out, t) \<Rightarrow>
                            (out,
                             CallSerialize requestEnvelope # CallPost url jsonContentType requestData #
                             t @ deferred_Close resp))))))"

definition Delete ::
  "pkgs \<Rightarrow> httpAccountsClientImpl \<Rightarrow> string \<Rightarrow> 64 word \<Rightarrow>
   HTTPError option outcome \<times> event list" where
  "Delete p hac ident version =
     (if \<not> isValidUUID p ident then
        (Returned (Some \<lparr>Cause = None, Message = ''id must be a valid uuid'',
                         StatusCode = 0, ResponsePayload = None\<rparr>), [])
      else
        let fullPath = host hac @ ''/'' @ servicePath @ ''/'' @ ident @ ''?version='' @
                       Sprintf_d (sint version) in
        (case createNewRequest hac of
           None \<Rightarrow> (Panicked, [])
         | Some new \<Rightarrow>
             (case new MethodDelete fullPath of (req, err) \<Rightarrow>
                if err \<noteq> None then
                  (Returned (Some \<lparr>Cause = err, Message = ''Error preparing Delete Http request'',
                                   StatusCode = 0, ResponsePayload = None\<rparr>),
                   [CallNewRequest MethodDelete fullPath])
                else
                  (case doRequest hac of
                     None \<Rightarrow> (Panicked, [CallNewRequest MethodDelete fullPath])
                   | Some do \<Rightarrow>
                       (case do req of (resp, err) \<Rightarrow>
                          (case (if err \<noteq> None then
                                   (Returned (Some \<lparr>Cause = err,
                                                    Message = ''Error placing Delete Http request'',
                                                    StatusCode = 0, ResponsePayload = None\<rparr>), [])
                                 else
                                   (case resp of
                                      None \<Rightarrow> (Panicked, [])
                                    | Some r \<Rightarrow>
                                        if Response.StatusCode r \<noteq> StatusNoContent then
                                          (case readPayload hac resp of
                                             (Panicked, t) \<Rightarrow> (Panicked, t)
                                           | (Returned (responseData, httpErr), t) \<Rightarrow>
                                               if httpErr \<noteq> None then (Returned httpErr, t)
                                               else
                                                 (Returned (Some (unexpectedStatusCode StatusNoContent
                                                    (Response.StatusCode r) ''Delete'' responseData)), t))
                                        else (Returned None, []))) of
                             (out, t) \<Rightarrow>
                               (out,
                                CallNewRequest MethodDelete fullPath # CallDo req #
                                t @ deferred_Close resp)))))))"

text \<open>\<open>init\<close> gives every nil function field its default.\<close>

definition init :: "pkgs \<Rightarrow> httpAccountsClientImpl \<Rightarrow> httpAccountsClientImpl" where
  "init p hac =
     hac\<lparr>readInput := (case readInput hac of None \<Rightarrow> Some io_ReadAll | Some f \<Rightarrow> Some f),
         doHttpGet := (case doHttpGet hac of None \<Rightarrow> Some (Get (client hac)) | Some f \<Rightarrow> Some f),
         doHttpPost := (case doHttpPost hac of None \<Rightarrow> Some (Post (client hac)) | Some f \<Rightarrow> Some f),
         createNewRequest :=
           (case createNewRequest hac of None \<Rightarrow> Some (http_NewRequest p) | Some f \<Rightarrow> Some f),
         doRequest := (case doRequest hac of None \<Rightarrow> Some (Do (client hac)) | Some f \<Rightarrow> Some f),
         serialize := (case serialize hac of None \<Rightarrow> Some (json_Marshal p) | Some f \<Rightarrow> Some f)\<rparr>"

definition MakeClient :: "pkgs \<Rightarrow> string \<Rightarrow> httpAccountsClientImpl option \<times> go_error option" where
  "MakeClient p baseUrl =
     (case validateUrl p baseUrl of
        Some err \<Rightarrow> (None, Some err)
      | None \<Rightarrow>
          (Some (init p \<lparr>host = baseUrl, client = new_Client p, readInput = None,
                         doHttpGet = None, doHttpPost = None, createNewRequest = None,
                         doRequest = None, serialize = None\<rparr>), None))"

section \<open>Test doubles\<close>

text \<open>
  The account \<open>AccountData{}\<close> the tests create, and the JSON document whose \<open>data\<close> field
  is the empty object: an opening brace, the key \<open>data\<close> in double quotes (byte 0x22), a
  colon, \<open>{}\<close> and a closing brace.
\<close>

definition zero_AccountData :: AccountData where
  "zero_AccountData =
     \<lparr>Attributes = None, ID = [], OrganisationID = [], Type = [], Version = None\<rparr>"

definition empty_data_body :: bytes where
  "empty_data_body = ''{'' @ [CHR 0x22] @ ''data'' @ [CHR 0x22] @ '':{}}''"

text \<open>
  Stand-ins for the external packages and for the server, used only to evaluate the model
  at concrete inputs, as the repository's tests do with injected functions and
  \<open>httptest\<close> servers. They answer as the packages do at the inputs used below:
  \<^item> \<open>uuid.Parse\<close> rejects \<open>blah\<close> (TestFetch_IdIsNotUuid) and accepts the canonical form
    \<open>0d209d7f-d07a-4542-947f-5885fddddae2\<close>;
  \<^item> \<open>url.ParseRequestURI\<close> rejects \<open>boom\<close> and accepts \<open>http://localhost:8080\<close>
    (TestAccountsClientFactory_MakeHttpClient, ..._NotValidUrl); it also accepts \<open>/foo\<close>:
    the package documents that the argument is read as an absolute URI or an absolute path;
  \<^item> \<open>json.Unmarshal\<close> of \<open>{}\<close> gives an envelope without data
    (TestCreate_ResponsePayloadEmptyJsonDocument), of \<open>blah\<close> and of the empty input an error
    (TestCreate_ErrorDeserializingResponseNotJsonDocument, ...OnEmptyResponse); of \<open>null\<close>
    it gives a nil pointer and no error: the package documents that the JSON null value
    unmarshals into a pointer by setting it to nil; of the document whose \<open>data\<close> field is
    the empty object it gives an envelope whose \<open>Data\<close> points to an account with every
    field zero: the package documents that a JSON value unmarshals into a nil pointer by
    allocating a new value for it to point to.
  At any other input the stand-ins report an error; no theorem evaluates them there.
  Every request to the stand-in server is answered by the one response given; the server
  does not read the request, and the stand-in for \<open>json.Marshal\<close> writes \<open>{}\<close>.
\<close>

definition test_double :: "Response \<Rightarrow> pkgs" where
  "test_double r =
     \<lparr>uuid_Parse =
        (\<lambda>u. if u = ''0d209d7f-d07a-4542-947f-5885fddddae2'' then None
             else Some ''invalid UUID''),
      url_ParseRequestURI =
        (\<lambda>u. if u = ''http://localhost:8080'' \<or> u = ''/foo'' then None
             else Some ''invalid URI for request''),
      json_Marshal = (\<lambda>e. (''{}'', None)),
      json_Unmarshal =
        (\<lambda>bs. if bs = ''{}'' then (Some \<lparr>Data = None\<rparr>, None)
              else if bs = ''null'' then (None, None)
              else if bs = empty_data_body then (Some \<lparr>Data = Some zero_AccountData\<rparr>, None)
              else if bs = [] then (None, Some ''unexpected end of JSON input'')
              else (None, Some ''invalid character'')),
      http_NewRequest = (\<lambda>m u. (Some \<lparr>Method = m, URL = u\<rparr>, None)),
      new_Client =
        \<lparr>Get = (\<lambda>url. (Some r, None)),
         Post = (\<lambda>url ctype body. (Some r, None)),
         Do = (\<lambda>req. (Some r, None))\<rparr>\<rparr>"

text \<open>The client \<open>MakeClient\<close> builds over the stand-ins.\<close>

definition test_client :: "Response \<Rightarrow> httpAccountsClientImpl" where
  "test_client r =
     init (test_double r)
       \<lparr>host = ''http://localhost:8080'', client = new_Client (test_double r),
        readInput = None, doHttpGet = None, doHttpPost = None, createNewRequest = None,
        doRequest = None, serialize = None\<rparr>"

definition uuid1 :: string where
  "uuid1 = ''0d209d7f-d07a-4542-947f-5885fddddae2''"

text \<open>
  What a handler of a test server writes: a status code, a \<open>Content-Type\<close> header (none
  when the text is empty) and a body that is read to its end without error.
\<close>

definition response :: "int \<Rightarrow> string \<Rightarrow> bytes \<Rightarrow> Response" where
  "response code ctype bs =
     \<lparr>Response.StatusCode = code,
      Header = (\<lambda>k. if k = ''Content-Type'' \<and> ctype \<noteq> [] then [ctype] else []),
      Body = ReadCloser bs None\<rparr>"

text \<open>A response whose body breaks off with a read error.\<close>

definition failing_body :: Response where
  "failing_body =
     \<lparr>Response.StatusCode = 200,
      Header = (\<lambda>k. if k = ''Content-Type'' then [''application/json''] else []),
      Body = ReadCloser [] (Some ''unable to finish reading input stream'')\<rparr>"

text \<open>
  Following the spec's words, "a well-formed absolute URL": an absolute URL begins with
  a scheme, that is a letter followed by letters, digits, \<open>+\<close>, \<open>-\<close> or \<open>.\<close>, and a colon
  (RFC 3986, absolute-URI). This is the part of well-formedness that every absolute URL
  has; nothing more is needed below.
\<close>

definition isLetter :: "char \<Rightarrow> bool" where
  "isLetter c = (c \<in> set ''abcdefghijklmnopqrstuvwxyzABCDEFGHIJKLMNOPQRSTUVWXYZ'')"

definition absolute_URL_scheme :: "string \<Rightarrow> bool" where
  "absolute_URL_scheme u =
     (case u of
        [] \<Rightarrow> False
      | c # cs \<Rightarrow>
          isLetter c \<and>
          (case dropWhile (\<lambda>d. isLetter d \<or> d \<in> set ''0123456789+-.'') cs of
             [] \<Rightarrow> False
           | d # ds \<Rightarrow> d = CHR '':''))"

section \<open>Facts about formatting\<close>

lemma Sprintf_d_200: "Sprintf_d 200 = ''200''"
  by (simp add: Sprintf_d_def)

lemma Sprintf_d_201: "Sprintf_d 201 = ''201''"
  by (simp add: Sprintf_d_def)

lemma Sprintf_d_204: "Sprintf_d 204 = ''204''"
  by (simp add: Sprintf_d_def)

lemma Sprintf_d_400: "Sprintf_d 400 = ''400''"
  by (simp add: Sprintf_d_def)

section \<open>Identifier validation\<close>



section \<open>Evaluating the test doubles\<close>

lemma test_client_fields:
  "host (test_client r) = ''http://localhost:8080''"
  "readInput (test_client r) = Some io_ReadAll"
  "doHttpGet (test_client r) = Some (\<lambda>url. (Some r, None))"
  "doHttpPost (test_client r) = Some (\<lambda>url ctype body. (Some r, None))"
  "createNewRequest (test_client r) = Some (\<lambda>m u. (Some \<lparr>Method = m, URL = u\<rparr>, None))"
  "doRequest (test_client r) = Some (\<lambda>req. (Some r, None))"
  "serialize (test_client r) = Some (\<lambda>e. (''{}'', None))"
  by (simp_all add: test_client_def init_def test_double_def)

lemma test_double_uuid1: "isValidUUID (test_double r) uuid1"
  by (simp add: isValidUUID_def test_double_def uuid1_def)

lemma response_fields:
  "Response.StatusCode (response code ctype bs) = code"
  "Body (response code ctype bs) = ReadCloser bs None"
  "Header_Get (Header (response code ctype bs)) ''Content-Type'' = ctype"
  by (simp_all add: response_def Header_Get_def)

section \<open>Reading the body comes first\<close>

text \<open>
  Claim C3. When the transport primitive of \<open>Fetch\<close> (the GET) or of \<open>Create\<close> (the POST)
  has returned a response \<open>r\<close> and no error, and the body reader fails on the body of \<open>r\<close>
  with error \<open>e\<close>, the operation returns a nil account and the error with message
  \<open>Error processing response body\<close>, cause \<open>e\<close>, status code 0 and no payload. Nothing is
  assumed about the status code or the headers of \<open>r\<close>: the result is the same for every
  status code. The calls made are the transport call, the read and the deferred close.
\<close>

theorem body_read_failure_takes_priority:
  "(isValidUUID p ident \<and> doHttpGet hac = Some get \<and>
    get (host hac @ ''/'' @ servicePath @ ''/'' @ ident) = (Some r, None) \<and>
    readInput hac = Some rd \<and> rd (Body r) = (bs, Some e) \<longrightarrow>
    Fetch p hac ident =
      (Returned (None, Some \<lparr>Cause = Some e, Message = ''Error processing response body'',
                             StatusCode = 0, ResponsePayload = None\<rparr>),
       [CallGet (host hac @ ''/'' @ servicePath @ ''/'' @ ident),
        CallReadInput (Body r), CallClose (Body r)])) \<and>
   (serialize hac = Some ser \<and> ser \<lparr>Data = account\<rparr> = (requestData, None) \<and>
    doHttpPost hac = Some post \<and>
    post (host hac @ ''/'' @ servicePath) jsonContentType requestData = (Some r, None) \<and>
    readInput hac = Some rd \<and> rd (Body r) = (bs, Some e) \<longrightarrow>
    Create p hac account =
      (Returned (None, Some \<lparr>Cause = Some e, Message = ''Error processing response body'',
                             StatusCode = 0, ResponsePayload = None\<rparr>),
       [CallSerialize \<lparr>Data = account\<rparr>,
        CallPost (host hac @ ''/'' @ servicePath) jsonContentType requestData,
        CallReadInput (Body r), CallClose (Body r)]))"
  by (simp add: Fetch_def Fetch_response_def Create_def Create_response_def readPayload_def
      deferred_Close_def)

theorem body_read_failure_takes_priority_witness:
  "Fetch (test_double failing_body) (test_client failing_body) uuid1 =
      (Returned (None, Some \<lparr>Cause = Some ''unable to finish reading input stream'',
                             Message = ''Error processing response body'',
                             StatusCode = 0, ResponsePayload = None\<rparr>),
       [CallGet (''http://localhost:8080/v1/organisation/accounts/'' @ uuid1),
        CallReadInput (Body failing_body), CallClose (Body failing_body)]) \<and>
   Create (test_double failing_body) (test_client failing_body) (Some zero_AccountData) =
      (Returned (None, Some \<lparr>Cause = Some ''unable to finish reading input stream'',
                             Message = ''Error processing response body'',
                             StatusCode = 0, ResponsePayload = None\<rparr>),
       [CallSerialize \<lparr>Data = Some zero_AccountData\<rparr>,
        CallPost ''http://localhost:8080/v1/organisation/accounts'' ''application/json'' ''{}'',
        CallReadInput (Body failing_body), CallClose (Body failing_body)])"
  using body_read_failure_takes_priority
    [where p = "test_double failing_body" and hac = "test_client failing_body" and ident = uuid1
       and r = failing_body and rd = io_ReadAll and bs = "[]"
       and e = "''unable to finish reading input stream''"
       and get = "\<lambda>url. (Some failing_body, None)"
       and post = "\<lambda>url ctype body. (Some failing_body, None)"
       and ser = "\<lambda>e. (''{}'', None)" and requestData = "''{}''"
       and account = "Some zero_AccountData"]
  by (simp add: test_client_fields test_double_uuid1 io_ReadAll_def failing_body_def
      servicePath_def jsonContentType_def)

section \<open>Unexpected status codes\<close>

text \<open>
  Claim C4. When the transport has returned a response \<open>r\<close> and no error, the body reader
  has returned the bytes \<open>bs\<close> and no error, and the status code of \<open>r\<close> is not the expected
  one (200 for \<open>Fetch\<close>, 201 for \<open>Create\<close>, 204 for \<open>Delete\<close>), the error returned has the
  status code of \<open>r\<close>, the message \<open>Unexpected response code returned for Op operation,
  expected N, got M\<close> with \<open>Op\<close> one of Get, Post, Delete and \<open>M\<close> the status code in decimal,
  no cause, and a payload that is present and equal to \<open>bs\<close>, also when \<open>bs\<close> is empty. The
  last conjunct is the scenario of the spec: status 400 and an empty body.
\<close>

theorem unexpected_status_error:
  "(isValidUUID p ident \<and> doHttpGet hac = Some get \<and>
    get (host hac @ ''/'' @ servicePath @ ''/'' @ ident) = (Some r, None) \<and>
    readInput hac = Some rd \<and> rd (Body r) = (bs, None) \<and> Response.StatusCode r \<noteq> 200 \<longrightarrow>
    Fetch p hac ident =
      (Returned (None,
         Some \<lparr>Cause = None,
               Message = ''Unexpected response code returned for Get operation, expected 200, got '' @
                         Sprintf_d (Response.StatusCode r),
               StatusCode = Response.StatusCode r, ResponsePayload = Some bs\<rparr>),
       [CallGet (host hac @ ''/'' @ servicePath @ ''/'' @ ident),
        CallReadInput (Body r), CallClose (Body r)])) \<and>
   (serialize hac = Some ser \<and> ser \<lparr>Data = account\<rparr> = (requestData, None) \<and>
    doHttpPost hac = Some post \<and>
    post (host hac @ ''/'' @ servicePath) jsonContentType requestData = (Some r, None) \<and>
    readInput hac = Some rd \<and> rd (Body r) = (bs, None) \<and> Response.StatusCode r \<noteq> 201 \<longrightarrow>
    Create p hac account =
      (Returned (None,
         Some \<lparr>Cause = None,
               Message = ''Unexpected response code returned for Post operation, expected 201, got '' @
                         Sprintf_d (Response.StatusCode r),
               StatusCode = Response.StatusCode r, ResponsePayload = Some bs\<rparr>),
       [CallSerialize \<lparr>Data = account\<rparr>,
        CallPost (host hac @ ''/'' @ servicePath) jsonContentType requestData,
        CallReadInput (Body r), CallClose (Body r)])) \<and>
   (isValidUUID p ident \<and> createNewRequest hac = Some new \<and>
    new MethodDelete (host hac @ ''/'' @ servicePath @ ''/'' @ ident @ ''?version='' @
                      Sprintf_d (sint version)) = (req, None) \<and>
    doRequest hac = Some do \<and> do req = (Some r, None) \<and>
    readInput hac = Some rd \<and> rd (Body r) = (bs, None) \<and> Response.StatusCode r \<noteq> 204 \<longrightarrow>
    Delete p hac ident version =
      (Returned
         (Some \<lparr>Cause = None,
               Message = ''Unexpected response code returned for Delete operation, expected 204, got '' @
                         Sprintf_d (Response.StatusCode r),
               StatusCode = Response.StatusCode r, ResponsePayload = Some bs\<rparr>),
       [CallNewRequest MethodDelete
          (host hac @ ''/'' @ servicePath @ ''/'' @ ident @ ''?version='' @ Sprintf_d (sint version)),
        CallDo req, CallReadInput (Body r), CallClose (Body r)])) \<and>
   (isValidUUID p ident \<and> doHttpGet hac = Some get \<and>
    get (host hac @ ''/'' @ servicePath @ ''/'' @ ident) = (Some r, None) \<and>
    readInput hac = Some rd \<and> rd (Body r) = ([], None) \<and> Response.StatusCode r = 400 \<longrightarrow>
    fst (Fetch p hac ident) =
      Returned (None,
         Some \<lparr>Cause = None,
               Message = ''Unexpected response code returned for Get operation, expected 200, got 400'',
               StatusCode = 400, ResponsePayload = Some []\<rparr>))"
  by (simp add: Fetch_def Fetch_response_def Create_def Create_response_def Delete_def readPayload_def
      deferred_Close_def unexpectedStatusCode_def StatusOK_def StatusCreated_def
      StatusNoContent_def Sprintf_d_200 Sprintf_d_201 Sprintf_d_204 Sprintf_d_400)

theorem unexpected_status_error_witness:
  "fst (Fetch (test_double (response 400 [] [])) (test_client (response 400 [] [])) uuid1) =
     Returned (None,
       Some \<lparr>Cause = None,
             Message = ''Unexpected response code returned for Get operation, expected 200, got 400'',
             StatusCode = 400, ResponsePayload = Some []\<rparr>) \<and>
   fst (Create (test_double (response 400 [] [])) (test_client (response 400 [] []))
          (Some zero_AccountData)) =
     Returned (None,
       Some \<lparr>Cause = None,
             Message = ''Unexpected response code returned for Post operation, expected 201, got 400'',
             StatusCode = 400, ResponsePayload = Some []\<rparr>) \<and>
   Delete (test_double (response 400 [] [])) (test_client (response 400 [] [])) uuid1 2 =
     (Returned
        (Some \<lparr>Cause = None,
              Message = ''Unexpected response code returned for Delete operation, expected 204, got 400'',
              StatusCode = 400, ResponsePayload = Some []\<rparr>),
      [CallNewRequest ''DELETE'' (''http://localhost:8080/v1/organisation/accounts/'' @ uuid1 @ ''?version=2''),
       CallDo (Some \<lparr>Method = ''DELETE'',
                      URL = ''http://localhost:8080/v1/organisation/accounts/'' @ uuid1 @ ''?version=2''\<rparr>),
       CallReadInput (ReadCloser [] None), CallClose (ReadCloser [] None)])"
  using unexpected_status_error
    [where p = "test_double (response 400 [] [])" and hac = "test_client (response 400 [] [])"
       and ident = uuid1 and r = "response 400 [] []" and rd = io_ReadAll and bs = "[]"
       and get = "\<lambda>url. (Some (response 400 [] []), None)"
       and post = "\<lambda>url ctype body. (Some (response 400 [] []), None)"
       and ser = "\<lambda>e. (''{}'', None)" and requestData = "''{}''"
       and account = "Some zero_AccountData" and version = 2
       and new = "\<lambda>m u. (Some \<lparr>Method = m, URL = u\<rparr>, None)"
       and do = "\<lambda>req. (Some (response 400 [] []), None)"
       and req = "Some \<lparr>Method = ''DELETE'',
                      URL = ''http://localhost:8080/v1/organisation/accounts/'' @ uuid1 @ ''?version=2''\<rparr>"]
  by (simp add: test_client_fields test_double_uuid1 io_ReadAll_def response_fields
      servicePath_def jsonContentType_def MethodDelete_def Sprintf_d_400 Sprintf_d_def)

lemma test_double_Unmarshal:
  "json_Unmarshal (test_double r) ''{}'' = (Some \<lparr>Data = None\<rparr>, None)"
  "json_Unmarshal (test_double r) ''null'' = (None, None)"
  "json_Unmarshal (test_double r) empty_data_body = (Some \<lparr>Data = Some zero_AccountData\<rparr>, None)"
  by (simp_all add: test_double_def empty_data_body_def)

section \<open>The Content-Type check\<close>

lemma readPayload_doHttpPost:
  "readPayload (hac\<lparr>doHttpPost := f\<rparr>) resp = readPayload hac resp"
  by (cases resp; cases "readInput hac"; simp add: readPayload_def)

lemma Create_response_doHttpPost:
  "Create_response p (hac\<lparr>doHttpPost := f\<rparr>) resp = Create_response p hac resp"
  by (simp add: Create_response_def readPayload_doHttpPost)

lemma Create_header_irrelevant:
  "Create_response p hac (map_option (\<lambda>r. r\<lparr>Header := h r\<rparr>) resp) = Create_response p hac resp"
  by (cases resp) (simp_all add: Create_response_def readPayload_def split: option.splits prod.splits)

lemma deferred_Close_header:
  "deferred_Close (map_option (\<lambda>r. r\<lparr>Header := h r\<rparr>) resp) = deferred_Close resp"
  by (cases resp) (simp_all add: deferred_Close_def)

lemma Create_messages:
  "fst (Create p hac account) = Returned (a, Some e) \<Longrightarrow>
   Message e \<in> {''Unable to serialize payload'', ''Error placing a Post Http request'',
                ''Error processing response body'', ''Error deserializing json'',
                ''Got an empty object after deserialization, json payload was an empty object?''} \<or>
   (\<exists>n. Message e = ''Unexpected response code returned for Post operation, expected 201, got '' @ n)"
  by (auto simp: Create_def Create_response_def readPayload_def deserializeToResponseEnvelope_def
      accountDataOrError_def unexpectedStatusCode_def StatusCreated_def Sprintf_d_201 Let_def
      split: option.splits prod.splits if_splits outcome.splits)

text \<open>
  Claim C5. \<open>Fetch\<close>: when the GET has returned a response with status 200, the body has
  been read, and the value of the \<open>Content-Type\<close> header does not start with
  \<open>application/json\<close>, the result is a nil account and an error that carries the status
  code of the response, the bytes read as payload and no cause. \<open>Create\<close> makes no such
  check: replacing the headers of the response the POST returns by any others leaves the
  result and the calls of \<open>Create\<close> unchanged, and no error \<open>Create\<close> returns has the message
  of the content-type error.
\<close>

theorem content_type_checked_by_Fetch_only:
  "(isValidUUID p ident \<and> doHttpGet hac = Some get \<and>
    get (host hac @ ''/'' @ servicePath @ ''/'' @ ident) = (Some r, None) \<and>
    readInput hac = Some rd \<and> rd (Body r) = (bs, None) \<and> Response.StatusCode r = 200 \<and>
    \<not> HasPrefix (Header_Get (Header r) ''Content-Type'') ''application/json'' \<longrightarrow>
    Fetch p hac ident =
      (Returned (None,
         Some \<lparr>Cause = None,
               Message = ''Unexpected  Content-Type, expecting application/json, got '' @
                         Header_Get (Header r) ''Content-Type'',
               StatusCode = Response.StatusCode r, ResponsePayload = Some bs\<rparr>),
       [CallGet (host hac @ ''/'' @ servicePath @ ''/'' @ ident),
        CallReadInput (Body r), CallClose (Body r)])) \<and>
   (doHttpPost hac = Some post \<longrightarrow>
    Create p
      (hac\<lparr>doHttpPost :=
             Some (\<lambda>url ctype body.
                     case post url ctype body of
                       (resp, err) \<Rightarrow> (map_option (\<lambda>r. r\<lparr>Header := h r\<rparr>) resp, err))\<rparr>)
      account =
    Create p hac account) \<and>
   (fst (Create p hac account) = Returned (a, Some e) \<longrightarrow>
    \<not> HasPrefix (Message e) ''Unexpected  Content-Type'')"
proof (intro conjI impI)
  assume "isValidUUID p ident \<and> doHttpGet hac = Some get \<and>
    get (host hac @ ''/'' @ servicePath @ ''/'' @ ident) = (Some r, None) \<and>
    readInput hac = Some rd \<and> rd (Body r) = (bs, None) \<and> Response.StatusCode r = 200 \<and>
    \<not> HasPrefix (Header_Get (Header r) ''Content-Type'') ''application/json''"
  then show "Fetch p hac ident =
      (Returned (None,
         Some \<lparr>Cause = None,
               Message = ''Unexpected  Content-Type, expecting application/json, got '' @
                         Header_Get (Header r) ''Content-Type'',
               StatusCode = Response.StatusCode r, ResponsePayload = Some bs\<rparr>),
       [CallGet (host hac @ ''/'' @ servicePath @ ''/'' @ ident),
        CallReadInput (Body r), CallClose (Body r)])"
    by (simp add: Fetch_def Fetch_response_def readPayload_def deferred_Close_def StatusOK_def
        contentType_def jsonContentType_def)
next
  assume post: "doHttpPost hac = Some post"
  show "Create p
      (hac\<lparr>doHttpPost :=
             Some (\<lambda>url ctype body.
                     case post url ctype body of
                       (resp, err) \<Rightarrow> (map_option (\<lambda>r. r\<lparr>Header := h r\<rparr>) resp, err))\<rparr>)
      account =
    Create p hac account"
    unfolding Create_def
    by (simp add: post Create_response_doHttpPost Create_header_irrelevant deferred_Close_header Let_def
        split: option.splits prod.splits)
next
  assume "fst (Create p hac account) = Returned (a, Some e)"
  from Create_messages [OF this] show "\<not> HasPrefix (Message e) ''Unexpected  Content-Type''"
    by (auto simp: HasPrefix_def)
qed

theorem content_type_checked_by_Fetch_only_witness:
  "Fetch (test_double (response 200 ''text/html'' [])) (test_client (response 200 ''text/html'' []))
     uuid1 =
     (Returned (None,
        Some \<lparr>Cause = None,
              Message = ''Unexpected  Content-Type, expecting application/json, got text/html'',
              StatusCode = 200, ResponsePayload = Some []\<rparr>),
      [CallGet (''http://localhost:8080/v1/organisation/accounts/'' @ uuid1),
       CallReadInput (ReadCloser [] None), CallClose (ReadCloser [] None)]) \<and>
   Create (test_double (response 201 ''text/html'' ''{}''))
     ((test_client (response 201 ''text/html'' ''{}''))
        \<lparr>doHttpPost :=
           Some (\<lambda>url ctype body.
                   case (Some (response 201 ''text/html'' ''{}''), None) of
                     (resp, err) \<Rightarrow>
                       (map_option (\<lambda>r. r\<lparr>Header := (\<lambda>k. [''application/json''])\<rparr>) resp, err))\<rparr>)
     (Some zero_AccountData) =
   Create (test_double (response 201 ''text/html'' ''{}''))
     (test_client (response 201 ''text/html'' ''{}'')) (Some zero_AccountData) \<and>
   fst (Create (test_double (response 201 ''text/html'' ''{}''))
          (test_client (response 201 ''text/html'' ''{}'')) (Some zero_AccountData)) =
     Returned (None,
       Some \<lparr>Cause = None,
             Message = ''Got an empty object after deserialization, json payload was an empty object?'',
             StatusCode = 0, ResponsePayload = Some ''{}''\<rparr>) \<and>
   \<not> HasPrefix ''Got an empty object after deserialization, json payload was an empty object?''
        ''Unexpected  Content-Type''"
proof -
  let ?R = "response 201 ''text/html'' ''{}''"
  have created: "fst (Create (test_double ?R) (test_client ?R) (Some zero_AccountData)) =
     Returned (None,
       Some \<lparr>Cause = None,
             Message = ''Got an empty object after deserialization, json payload was an empty object?'',
             StatusCode = 0, ResponsePayload = Some ''{}''\<rparr>)"
    by (simp add: Create_def Create_response_def readPayload_def test_client_fields
        response_fields io_ReadAll_def StatusCreated_def deserializeToResponseEnvelope_def
        accountDataOrError_def test_double_Unmarshal)
  show ?thesis
    using created content_type_checked_by_Fetch_only
      [where p = "test_double (response 200 ''text/html'' [])"
         and hac = "test_client (response 200 ''text/html'' [])" and ident = uuid1
         and r = "response 200 ''text/html'' []" and rd = io_ReadAll and bs = "[]"
         and get = "\<lambda>url. (Some (response 200 ''text/html'' []), None)"]
      content_type_checked_by_Fetch_only
      [where p = "test_double ?R" and hac = "test_client ?R" and account = "Some zero_AccountData"
         and post = "\<lambda>url ctype body. (Some ?R, None)"
         and h = "\<lambda>r k. [''application/json'']" and a = None
         and e = "\<lparr>Cause = None,
             Message = ''Got an empty object after deserialization, json payload was an empty object?'',
             StatusCode = 0, ResponsePayload = Some ''{}''\<rparr>"]
    by (simp add: test_client_fields test_double_uuid1 io_ReadAll_def response_fields
        servicePath_def HasPrefix_def)
qed

section \<open>Delete on success\<close>

text \<open>
  Claim C6. When the identifier is valid, the request has been built and executed without
  error, and the response has status 204, \<open>Delete\<close> returns a nil error, and the calls it
  makes are the construction of the request, its execution and the deferred close: the
  body reader is not called. Conversely, whenever the calls of \<open>Delete\<close> contain a read of a
  body, the request was executed without error and the response, whose body it is, has a
  status other than 204.
\<close>

theorem Delete_204_reads_no_body:
  "(isValidUUID p ident \<and> createNewRequest hac = Some new \<and>
    new MethodDelete (host hac @ ''/'' @ servicePath @ ''/'' @ ident @ ''?version='' @
                      Sprintf_d (sint version)) = (req, None) \<and>
    doRequest hac = Some do \<and> do req = (Some r, None) \<and> Response.StatusCode r = 204 \<longrightarrow>
    Delete p hac ident version =
      (Returned None,
       [CallNewRequest MethodDelete
          (host hac @ ''/'' @ servicePath @ ''/'' @ ident @ ''?version='' @ Sprintf_d (sint version)),
        CallDo req, CallClose (Body r)])) \<and>
   (CallReadInput b \<in> set (snd (Delete p hac ident version)) \<longrightarrow>
    (\<exists>new req do r.
       isValidUUID p ident \<and> createNewRequest hac = Some new \<and>
       new MethodDelete (host hac @ ''/'' @ servicePath @ ''/'' @ ident @ ''?version='' @
                         Sprintf_d (sint version)) = (req, None) \<and>
       doRequest hac = Some do \<and> do req = (Some r, None) \<and>
       Response.StatusCode r \<noteq> 204 \<and> b = Body r))"
proof (intro conjI impI)
  assume "isValidUUID p ident \<and> createNewRequest hac = Some new \<and>
    new MethodDelete (host hac @ ''/'' @ servicePath @ ''/'' @ ident @ ''?version='' @
                      Sprintf_d (sint version)) = (req, None) \<and>
    doRequest hac = Some do \<and> do req = (Some r, None) \<and> Response.StatusCode r = 204"
  then show "Delete p hac ident version =
      (Returned None,
       [CallNewRequest MethodDelete
          (host hac @ ''/'' @ servicePath @ ''/'' @ ident @ ''?version='' @ Sprintf_d (sint version)),
        CallDo req, CallClose (Body r)])"
    by (simp add: Delete_def StatusNoContent_def deferred_Close_def)
next
  assume "CallReadInput b \<in> set (snd (Delete p hac ident version))"
  then show "\<exists>new req do r.
       isValidUUID p ident \<and> createNewRequest hac = Some new \<and>
       new MethodDelete (host hac @ ''/'' @ servicePath @ ''/'' @ ident @ ''?version='' @
                         Sprintf_d (sint version)) = (req, None) \<and>
       doRequest hac = Some do \<and> do req = (Some r, None) \<and>
       Response.StatusCode r \<noteq> 204 \<and> b = Body r"
    by (auto simp: Delete_def StatusNoContent_def deferred_Close_def readPayload_def Let_def
        split: if_splits option.splits prod.splits outcome.splits)
qed


theorem Delete_204_reads_no_body_witness:
  "Delete (test_double (response 204 [] [])) (test_client (response 204 [] [])) uuid1 3 =
     (Returned None,
      [CallNewRequest ''DELETE''
         (''http://localhost:8080/v1/organisation/accounts/'' @ uuid1 @ ''?version=3''),
       CallDo (Some \<lparr>Method = ''DELETE'',
                      URL = ''http://localhost:8080/v1/organisation/accounts/'' @ uuid1 @
                            ''?version=3''\<rparr>),
       CallClose (ReadCloser [] None)]) \<and>
   CallReadInput (ReadCloser [] None) \<in>
     set (snd (Delete (test_double (response 400 [] [])) (test_client (response 400 [] [])) uuid1 3)) \<and>
   (\<exists>new req do r.
      isValidUUID (test_double (response 400 [] [])) uuid1 \<and>
      createNewRequest (test_client (response 400 [] [])) = Some new \<and>
      new MethodDelete (host (test_client (response 400 [] [])) @ ''/'' @ servicePath @ ''/'' @ uuid1 @
                        ''?version='' @ Sprintf_d (sint (3 :: 64 word))) = (req, None) \<and>
      doRequest (test_client (response 400 [] [])) = Some do \<and> do req = (Some r, None) \<and>
      Response.StatusCode r \<noteq> 204 \<and> ReadCloser [] None = Body r)"
proof -
  have read: "CallReadInput (ReadCloser [] None) \<in>
     set (snd (Delete (test_double (response 400 [] [])) (test_client (response 400 [] [])) uuid1 3))"
    by (simp add: Delete_def test_double_uuid1 test_client_fields response_fields
        StatusNoContent_def readPayload_def io_ReadAll_def Let_def)
  show ?thesis
    using read
      Delete_204_reads_no_body
        [where p = "test_double (response 204 [] [])" and hac = "test_client (response 204 [] [])"
           and ident = uuid1 and version = 3 and r = "response 204 [] []"
           and new = "\<lambda>m u. (Some \<lparr>Method = m, URL = u\<rparr>, None)"
           and do = "\<lambda>req. (Some (response 204 [] []), None)"
           and req = "Some \<lparr>Method = ''DELETE'',
                      URL = ''http://localhost:8080/v1/organisation/accounts/'' @ uuid1 @
                            ''?version=3''\<rparr>"]
      Delete_204_reads_no_body
        [where p = "test_double (response 400 [] [])" and hac = "test_client (response 400 [] [])"
           and ident = uuid1 and version = 3 and b = "ReadCloser [] None"]
    by (simp add: test_client_fields test_double_uuid1 response_fields servicePath_def
        MethodDelete_def Sprintf_d_def)
qed

section \<open>An envelope without data\<close>

text \<open>
  Claim C7, as the code has it. When the response has the expected status (200 for
  \<open>Fetch\<close>, with a JSON content type; 201 for \<open>Create\<close>), the body has been read, and
  \<open>json.Unmarshal\<close> has parsed it without error into an envelope, the operation looks at
  the \<open>Data\<close> pointer of the envelope and at nothing else. When \<open>Data\<close> is nil (the data
  field is absent or null) it returns a nil account and the error with message \<open>Got an
  empty object after deserialization, json payload was an empty object?\<close>, whose payload
  is the body as read and whose cause is nil. When \<open>Data\<close> is not nil it returns the
  account \<open>Data\<close> points to and a nil error, also when every field of that account is
  zero. The witness evaluates the scenario of the spec: a server answering \<open>Create\<close> with
  201 and the body \<open>{}\<close>.
\<close>

theorem empty_payload_error:
  "(isValidUUID p ident \<and> doHttpGet hac = Some get \<and>
    get (host hac @ ''/'' @ servicePath @ ''/'' @ ident) = (Some r, None) \<and>
    readInput hac = Some rd \<and> rd (Body r) = (bs, None) \<and> Response.StatusCode r = 200 \<and>
    HasPrefix (Header_Get (Header r) ''Content-Type'') ''application/json'' \<and>
    json_Unmarshal p bs = (Some env, None) \<and> Data env = None \<longrightarrow>
    Fetch p hac ident =
      (Returned (None,
         Some \<lparr>Cause = None,
               Message = ''Got an empty object after deserialization, json payload was an empty object?'',
               StatusCode = 0, ResponsePayload = Some bs\<rparr>),
       [CallGet (host hac @ ''/'' @ servicePath @ ''/'' @ ident),
        CallReadInput (Body r), CallClose (Body r)])) \<and>
   (serialize hac = Some ser \<and> ser \<lparr>Data = account\<rparr> = (requestData, None) \<and>
    doHttpPost hac = Some post \<and>
    post (host hac @ ''/'' @ servicePath) jsonContentType requestData = (Some r, None) \<and>
    readInput hac = Some rd \<and> rd (Body r) = (bs, None) \<and> Response.StatusCode r = 201 \<and>
    json_Unmarshal p bs = (Some env, None) \<and> Data env = None \<longrightarrow>
    Create p hac account =
      (Returned (None,
         Some \<lparr>Cause = None,
               Message = ''Got an empty object after deserialization, json payload was an empty object?'',
               StatusCode = 0, ResponsePayload = Some bs\<rparr>),
       [CallSerialize \<lparr>Data = account\<rparr>,
        CallPost (host hac @ ''/'' @ servicePath) jsonContentType requestData,
        CallReadInput (Body r), CallClose (Body r)])) \<and>
   (isValidUUID p ident \<and> doHttpGet hac = Some get \<and>
    get (host hac @ ''/'' @ servicePath @ ''/'' @ ident) = (Some r, None) \<and>
    readInput hac = Some rd \<and> rd (Body r) = (bs, None) \<and> Response.StatusCode r = 200 \<and>
    HasPrefix (Header_Get (Header r) ''Content-Type'') ''application/json'' \<and>
    json_Unmarshal p bs = (Some env, None) \<and> Data env = Some a \<longrightarrow>
    Fetch p hac ident =
      (Returned (Some a, None),
       [CallGet (host hac @ ''/'' @ servicePath @ ''/'' @ ident),
        CallReadInput (Body r), CallClose (Body r)])) \<and>
   (serialize hac = Some ser \<and> ser \<lparr>Data = account\<rparr> = (requestData, None) \<and>
    doHttpPost hac = Some post \<and>
    post (host hac @ ''/'' @ servicePath) jsonContentType requestData = (Some r, None) \<and>
    readInput hac = Some rd \<and> rd (Body r) = (bs, None) \<and> Response.StatusCode r = 201 \<and>
    json_Unmarshal p bs = (Some env, None) \<and> Data env = Some a \<longrightarrow>
    Create p hac account =
      (Returned (Some a, None),
       [CallSerialize \<lparr>Data = account\<rparr>,
        CallPost (host hac @ ''/'' @ servicePath) jsonContentType requestData,
        CallReadInput (Body r), CallClose (Body r)]))"
  by (simp add: Fetch_def Fetch_response_def Create_def Create_response_def readPayload_def
      deferred_Close_def StatusOK_def StatusCreated_def contentType_def jsonContentType_def
      deserializeToResponseEnvelope_def accountDataOrError_def)

theorem empty_payload_error_witness:
  "Fetch (test_double (response 200 ''application/json'' ''{}''))
     (test_client (response 200 ''application/json'' ''{}'')) uuid1 =
     (Returned (None,
        Some \<lparr>Cause = None,
              Message = ''Got an empty object after deserialization, json payload was an empty object?'',
              StatusCode = 0, ResponsePayload = Some ''{}''\<rparr>),
      [CallGet (''http://localhost:8080/v1/organisation/accounts/'' @ uuid1),
       CallReadInput (ReadCloser ''{}'' None), CallClose (ReadCloser ''{}'' None)]) \<and>
   Create (test_double (response 201 [] ''{}'')) (test_client (response 201 [] ''{}''))
     (Some zero_AccountData) =
     (Returned (None,
        Some \<lparr>Cause = None,
              Message = ''Got an empty object after deserialization, json payload was an empty object?'',
              StatusCode = 0, ResponsePayload = Some ''{}''\<rparr>),
      [CallSerialize \<lparr>Data = Some zero_AccountData\<rparr>,
       CallPost ''http://localhost:8080/v1/organisation/accounts'' ''application/json'' ''{}'',
       CallReadInput (ReadCloser ''{}'' None), CallClose (ReadCloser ''{}'' None)]) \<and>
   Fetch (test_double (response 200 ''application/json'' empty_data_body))
     (test_client (response 200 ''application/json'' empty_data_body)) uuid1 =
     (Returned (Some zero_AccountData, None),
      [CallGet (''http://localhost:8080/v1/organisation/accounts/'' @ uuid1),
       CallReadInput (ReadCloser empty_data_body None),
       CallClose (ReadCloser empty_data_body None)])"
  using empty_payload_error
      [where p = "test_double (response 200 ''application/json'' ''{}'')"
         and hac = "test_client (response 200 ''application/json'' ''{}'')" and ident = uuid1
         and r = "response 200 ''application/json'' ''{}''" and rd = io_ReadAll and bs = "''{}''"
         and get = "\<lambda>url. (Some (response 200 ''application/json'' ''{}''), None)"
         and env = "\<lparr>Data = None\<rparr>"]
    empty_payload_error
      [where p = "test_double (response 201 [] ''{}'')"
         and hac = "test_client (response 201 [] ''{}'')"
         and r = "response 201 [] ''{}''" and rd = io_ReadAll and bs = "''{}''"
         and post = "\<lambda>url ctype body. (Some (response 201 [] ''{}''), None)"
         and ser = "\<lambda>e. (''{}'', None)" and requestData = "''{}''"
         and account = "Some zero_AccountData" and env = "\<lparr>Data = None\<rparr>"]
    empty_payload_error
      [where p = "test_double (response 200 ''application/json'' empty_data_body)"
         and hac = "test_client (response 200 ''application/json'' empty_data_body)"
         and ident = uuid1
         and r = "response 200 ''application/json'' empty_data_body" and rd = io_ReadAll
         and bs = empty_data_body
         and get = "\<lambda>url. (Some (response 200 ''application/json'' empty_data_body), None)"
         and env = "\<lparr>Data = Some zero_AccountData\<rparr>" and a = zero_AccountData]
  by (simp add: test_client_fields test_double_uuid1 test_double_Unmarshal io_ReadAll_def
      response_fields servicePath_def jsonContentType_def HasPrefix_def)

text \<open>
  The claim as the spec words it fails where the data field is present and empty. For
  the body whose \<open>data\<close> field is the empty object, \<open>json.Unmarshal\<close> gives an envelope whose
  \<open>Data\<close> points to an account with every field zero; the body parses, the data is empty,
  and yet \<open>Create\<close> at status 201 and \<open>Fetch\<close> at status 200 return that account and a nil
  error, not the error of an empty payload.
\<close>

theorem empty_data_object_is_returned:
  "Create (test_double (response 201 ''application/json'' empty_data_body))
     (test_client (response 201 ''application/json'' empty_data_body)) (Some zero_AccountData) =
     (Returned (Some zero_AccountData, None),
      [CallSerialize \<lparr>Data = Some zero_AccountData\<rparr>,
       CallPost ''http://localhost:8080/v1/organisation/accounts'' ''application/json'' ''{}'',
       CallReadInput (ReadCloser empty_data_body None),
       CallClose (ReadCloser empty_data_body None)]) \<and>
   Fetch (test_double (response 200 ''application/json'' empty_data_body))
     (test_client (response 200 ''application/json'' empty_data_body)) uuid1 =
     (Returned (Some zero_AccountData, None),
      [CallGet (''http://localhost:8080/v1/organisation/accounts/'' @ uuid1),
       CallReadInput (ReadCloser empty_data_body None),
       CallClose (ReadCloser empty_data_body None)])"
  by (simp add: Fetch_def Fetch_response_def Create_def Create_response_def readPayload_def
      deferred_Close_def test_client_fields test_double_uuid1 test_double_Unmarshal
      response_fields io_ReadAll_def StatusOK_def StatusCreated_def contentType_def
      jsonContentType_def servicePath_def HasPrefix_def deserializeToResponseEnvelope_def
      accountDataOrError_def)

section \<open>Create does not validate the account\<close>

lemma deserializeToResponseEnvelope_uuid_Parse:
  "deserializeToResponseEnvelope (p\<lparr>uuid_Parse := f\<rparr>) responseData =
   deserializeToResponseEnvelope p responseData"
  by (simp add: deserializeToResponseEnvelope_def cong: option.case_cong)

lemma Create_response_uuid_Parse:
  "Create_response (p\<lparr>uuid_Parse := f\<rparr>) hac resp = Create_response p hac resp"
  by (simp add: Create_response_def deserializeToResponseEnvelope_uuid_Parse
      cong: option.case_cong prod.case_cong outcome.case_cong if_cong)

text \<open>
  Claim C10. \<open>Create\<close> validates nothing of the account it is given: its result and its
  calls do not depend on what \<open>uuid.Parse\<close> computes, and no error it returns has the
  message \<open>id must be a valid uuid\<close>. On a client whose function fields are set: when the
  serializer fails, \<open>Create\<close> returns the serialization error and the serializer call is
  its only call; when the serializer succeeds with the bytes \<open>bs\<close>, the next call is the
  POST of \<open>bs\<close> to the service path with content type \<open>application/json\<close>, whatever the
  account is.
\<close>

theorem Create_validates_nothing:
  "Create (p\<lparr>uuid_Parse := f\<rparr>) hac account = Create p hac account \<and>
   (fst (Create p hac account) = Returned (a, Some e) \<longrightarrow>
    Message e \<noteq> ''id must be a valid uuid'') \<and>
   (serialize hac = Some ser \<and> ser \<lparr>Data = account\<rparr> = (bs, Some err) \<longrightarrow>
    Create p hac account =
      (Returned (None, Some \<lparr>Cause = Some err, Message = ''Unable to serialize payload'',
                             StatusCode = 0, ResponsePayload = None\<rparr>),
       [CallSerialize \<lparr>Data = account\<rparr>])) \<and>
   (serialize hac = Some ser \<and> ser \<lparr>Data = account\<rparr> = (bs, None) \<and>
    doHttpPost hac = Some post \<longrightarrow>
    take 2 (snd (Create p hac account)) =
      [CallSerialize \<lparr>Data = account\<rparr>,
       CallPost (host hac @ ''/'' @ servicePath) jsonContentType bs])"
proof (intro conjI impI)
  show "Create (p\<lparr>uuid_Parse := f\<rparr>) hac account = Create p hac account"
    by (simp add: Create_def Create_response_uuid_Parse
        cong: option.case_cong prod.case_cong if_cong)
next
  assume "fst (Create p hac account) = Returned (a, Some e)"
  from Create_messages [OF this] show "Message e \<noteq> ''id must be a valid uuid''"
    by auto
next
  assume "serialize hac = Some ser \<and> ser \<lparr>Data = account\<rparr> = (bs, Some err)"
  then show "Create p hac account =
      (Returned (None, Some \<lparr>Cause = Some err, Message = ''Unable to serialize payload'',
                             StatusCode = 0, ResponsePayload = None\<rparr>),
       [CallSerialize \<lparr>Data = account\<rparr>])"
    by (simp add: Create_def)
next
  assume "serialize hac = Some ser \<and> ser \<lparr>Data = account\<rparr> = (bs, None) \<and>
    doHttpPost hac = Some post"
  then show "take 2 (snd (Create p hac account)) =
      [CallSerialize \<lparr>Data = account\<rparr>,
       CallPost (host hac @ ''/'' @ servicePath) jsonContentType bs]"
    by (simp add: Create_def Let_def split: prod.splits)
qed

theorem Create_validates_nothing_witness:
  "take 2 (snd (Create (test_double (response 201 [] ''{}''))
                  (test_client (response 201 [] ''{}''))
                  (Some (zero_AccountData\<lparr>ID := ''blah''\<rparr>)))) =
     [CallSerialize \<lparr>Data = Some (zero_AccountData\<lparr>ID := ''blah''\<rparr>)\<rparr>,
      CallPost ''http://localhost:8080/v1/organisation/accounts'' ''application/json'' ''{}''] \<and>
   \<not> isValidUUID (test_double (response 201 [] ''{}'')) ''blah'' \<and>
   take 2 (snd (Create (test_double (response 201 [] ''{}''))
                  (test_client (response 201 [] ''{}'')) (Some zero_AccountData))) =
     [CallSerialize \<lparr>Data = Some zero_AccountData\<rparr>,
      CallPost ''http://localhost:8080/v1/organisation/accounts'' ''application/json'' ''{}''] \<and>
   Create (test_double (response 201 [] ''{}''))
     ((test_client (response 201 [] ''{}''))
        \<lparr>serialize := Some (\<lambda>e. ([], Some ''cannot serialize''))\<rparr>)
     (Some zero_AccountData) =
     (Returned (None, Some \<lparr>Cause = Some ''cannot serialize'',
                            Message = ''Unable to serialize payload'',
                            StatusCode = 0, ResponsePayload = None\<rparr>),
      [CallSerialize \<lparr>Data = Some zero_AccountData\<rparr>])"
  using Create_validates_nothing
      [where p = "test_double (response 201 [] ''{}'')"
         and hac = "test_client (response 201 [] ''{}'')"
         and account = "Some (zero_AccountData\<lparr>ID := ''blah''\<rparr>)"
         and ser = "\<lambda>e. (''{}'', None)" and bs = "''{}''"
         and post = "\<lambda>url ctype body. (Some (response 201 [] ''{}''), None)"]
    Create_validates_nothing
      [where p = "test_double (response 201 [] ''{}'')"
         and hac = "test_client (response 201 [] ''{}'')"
         and account = "Some zero_AccountData"
         and ser = "\<lambda>e. (''{}'', None)" and bs = "''{}''"
         and post = "\<lambda>url ctype body. (Some (response 201 [] ''{}''), None)"]
    Create_validates_nothing
      [where p = "test_double (response 201 [] ''{}'')"
         and hac = "(test_client (response 201 [] ''{}''))
                      \<lparr>serialize := Some (\<lambda>e. ([], Some ''cannot serialize''))\<rparr>"
         and account = "Some zero_AccountData"
         and ser = "\<lambda>e. ([], Some ''cannot serialize'')" and bs = "[]"
         and err = "''cannot serialize''"]
  by (simp add: test_client_fields servicePath_def jsonContentType_def isValidUUID_def
      test_double_def)

section \<open>A JSON null body\<close>

lemma Fetch_returns_exactly_one:
  "fst (Fetch p hac ident) = Returned (a, e) \<Longrightarrow> (a = None) \<noteq> (e = None)"
  by (auto simp: Fetch_def Fetch_response_def readPayload_def deserializeToResponseEnvelope_def
      accountDataOrError_def Let_def
      split: option.splits prod.splits if_splits outcome.splits)

lemma Create_returns_exactly_one:
  "fst (Create p hac account) = Returned (a, e) \<Longrightarrow> (a = None) \<noteq> (e = None)"
  by (auto simp: Create_def Create_response_def readPayload_def deserializeToResponseEnvelope_def
      accountDataOrError_def Let_def
      split: option.splits prod.splits if_splits outcome.splits)

lemma nil_envelope_panics:
  assumes "isValidUUID p ident" "doHttpGet hac = Some get"
    "get (host hac @ ''/'' @ servicePath @ ''/'' @ ident) = (Some r, None)"
    "readInput hac = Some rd" "rd (Body r) = (bs, None)" "Response.StatusCode r = 200"
    "HasPrefix (Header_Get (Header r) ''Content-Type'') ''application/json''"
    "json_Unmarshal p bs = (None, None)"
  shows "fst (Fetch p hac ident) = Panicked"
  using assms
  by (simp add: Fetch_def Fetch_response_def readPayload_def StatusOK_def contentType_def
      jsonContentType_def deserializeToResponseEnvelope_def accountDataOrError_def)

lemma Fetch_returns_otherwise:
  assumes "doHttpGet hac = Some get" "readInput hac = Some rd"
    "\<And>u. get u \<noteq> (None, None)" "\<And>bs. json_Unmarshal p bs \<noteq> (None, None)"
  shows "\<exists>a e. fst (Fetch p hac ident) = Returned (a, e)"
proof (cases "isValidUUID p ident")
  case False
  then show ?thesis by (simp add: Fetch_def)
next
  case True
  obtain resp err where g: "get (host hac @ ''/'' @ servicePath @ ''/'' @ ident) = (resp, err)"
    by (cases "get (host hac @ ''/'' @ servicePath @ ''/'' @ ident)")
  show ?thesis
  proof (cases err)
    case (Some e)
    with True g assms(1) show ?thesis by (simp add: Fetch_def)
  next
    case None
    with g assms(3) obtain r where r: "resp = Some r" by (cases resp) auto
    obtain bs rerr where rd: "rd (Body r) = (bs, rerr)" by (cases "rd (Body r)")
    obtain env uerr where u: "json_Unmarshal p bs = (env, uerr)" by (cases "json_Unmarshal p bs")
    from u assms(4) [of bs] have "uerr = None \<Longrightarrow> env \<noteq> None" by (cases env) auto
    then have "uerr \<noteq> None \<or> (\<exists>v. env = Some v)" by auto
    with True g None r rd u assms(1,2) show ?thesis
      by (cases rerr)
         (auto simp: Fetch_def Fetch_response_def readPayload_def Let_def
          deserializeToResponseEnvelope_def accountDataOrError_def)
  qed
qed

text \<open>
  Claim C1. Whenever \<open>Fetch\<close> or \<open>Create\<close> returns, exactly one of the two pointers is nil
  (\<open>Fetch_returns_exactly_one\<close>, \<open>Create_returns_exactly_one\<close>). But they do not always
  return. When the response has the expected status, the body is read and \<open>json.Unmarshal\<close>
  leaves the envelope pointer nil without an error, as it does for the JSON document
  \<open>null\<close>, \<open>accountDataOrError\<close> dereferences the nil envelope and the operation panics
  (\<open>nil_envelope_panics\<close>): the caller gets neither an account nor an error. The theorem
  evaluates both operations against a server that answers with the body \<open>null\<close>. On a
  client built by a factory, over a transport that returns a response or an error, this
  is the only way \<open>Fetch\<close> fails to return (\<open>Fetch_returns_otherwise\<close>).
\<close>

theorem null_body_panics:
  "Fetch (test_double (response 200 ''application/json'' ''null''))
     (test_client (response 200 ''application/json'' ''null'')) uuid1 =
     (Panicked,
      [CallGet (''http://localhost:8080/v1/organisation/accounts/'' @ uuid1),
       CallReadInput (ReadCloser ''null'' None), CallClose (ReadCloser ''null'' None)]) \<and>
   Create (test_double (response 201 ''application/json'' ''null''))
     (test_client (response 201 ''application/json'' ''null'')) (Some zero_AccountData) =
     (Panicked,
      [CallSerialize \<lparr>Data = Some zero_AccountData\<rparr>,
       CallPost ''http://localhost:8080/v1/organisation/accounts'' ''application/json'' ''{}'',
       CallReadInput (ReadCloser ''null'' None), CallClose (ReadCloser ''null'' None)])"
  by (simp add: Fetch_def Fetch_response_def Create_def Create_response_def readPayload_def
      deferred_Close_def test_client_fields test_double_uuid1 test_double_Unmarshal
      response_fields io_ReadAll_def StatusOK_def StatusCreated_def contentType_def
      jsonContentType_def servicePath_def HasPrefix_def deserializeToResponseEnvelope_def
      accountDataOrError_def)

section \<open>Construction of the client\<close>

text \<open>
  Claim C8, as the code has it. \<open>MakeClient\<close> returns a nil client and the error \<open>invalid
  URL provided\<close> exactly when \<open>url.ParseRequestURI\<close> reports an error for the base address;
  otherwise it returns, with a nil error, a client whose host is the base address and
  whose function fields are all set to the defaults. The check is made by \<open>MakeClient\<close>
  itself, before the client exists.
\<close>

theorem MakeClient_validates_by_ParseRequestURI:
  "(url_ParseRequestURI p baseUrl \<noteq> None \<longrightarrow>
    MakeClient p baseUrl = (None, Some ''invalid URL provided'')) \<and>
   (url_ParseRequestURI p baseUrl = None \<longrightarrow>
    (\<exists>c. MakeClient p baseUrl = (Some c, None) \<and> host c = baseUrl \<and>
         readInput c = Some io_ReadAll \<and>
         doHttpGet c = Some (Get (new_Client p)) \<and>
         doHttpPost c = Some (Post (new_Client p)) \<and>
         createNewRequest c = Some (http_NewRequest p) \<and>
         doRequest c = Some (Do (new_Client p)) \<and>
         serialize c = Some (json_Marshal p)))"
  by (auto simp: MakeClient_def validateUrl_def init_def)

theorem MakeClient_validates_by_ParseRequestURI_witness:
  "MakeClient (test_double (response 204 [] [])) ''boom'' = (None, Some ''invalid URL provided'') \<and>
   MakeClient (test_double (response 204 [] [])) ''http://localhost:8080'' =
     (Some (test_client (response 204 [] [])), None)"
proof -
  have "url_ParseRequestURI (test_double (response 204 [] [])) ''boom'' \<noteq> None"
    by (simp add: test_double_def)
  with MakeClient_validates_by_ParseRequestURI
    [of "test_double (response 204 [] [])" "''boom''"]
  have "MakeClient (test_double (response 204 [] [])) ''boom'' = (None, Some ''invalid URL provided'')"
    by blast
  moreover have "MakeClient (test_double (response 204 [] [])) ''http://localhost:8080'' =
     (Some (test_client (response 204 [] [])), None)"
    by (simp add: MakeClient_def validateUrl_def test_client_def test_double_def)
  ultimately show ?thesis by simp
qed

text \<open>
  The claim as the spec words it fails: \<open>url.ParseRequestURI\<close> also accepts an absolute
  path, so \<open>MakeClient\<close> returns a client for the base address \<open>/foo\<close>, which has no scheme
  and is not an absolute URL.
\<close>

lemma absolute_URL_scheme_localhost: "absolute_URL_scheme ''http://localhost:8080''"
  by (simp add: absolute_URL_scheme_def isLetter_def)

theorem MakeClient_accepts_absolute_path:
  "\<not> absolute_URL_scheme ''/foo'' \<and>
   MakeClient (test_double (response 204 [] [])) ''/foo'' =
     (Some ((test_client (response 204 [] []))\<lparr>host := ''/foo''\<rparr>), None)"
  by (simp add: absolute_URL_scheme_def isLetter_def MakeClient_def validateUrl_def
      test_client_def test_double_def init_def)

end
